theory Spec2Isabelle
  imports Complex_Main
begin

section \<open>Strings\<close>

text \<open>
  A Go \<open>string\<close> is a sequence of bytes and \<open>len\<close> counts bytes, so a symbol is a
  \<^typ>\<open>string\<close> (a list of \<^typ>\<open>char\<close>). The functions of package \<open>strings\<close> that the
  trader calls are written out from their Go definitions.
\<close>

definition HasPrefix :: "string \<Rightarrow> string \<Rightarrow> bool" where
  \<comment> \<open>\<open>len(s) >= len(prefix) && s[:len(prefix)] == prefix\<close>\<close>
  "HasPrefix s pre = (length pre \<le> length s \<and> take (length pre) s = pre)"

fun Contains :: "string \<Rightarrow> string \<Rightarrow> bool" where
  \<comment> \<open>\<open>strings.Contains(s, substr)\<close>: \<open>substr\<close> starts at some position of \<open>s\<close>\<close>
  "Contains [] sub = (sub = [])"
| "Contains (c # cs) sub = (HasPrefix (c # cs) sub \<or> Contains cs sub)"

definition HasSuffix :: "string \<Rightarrow> string \<Rightarrow> bool" where
  \<comment> \<open>\<open>len(s) >= len(suffix) && s[len(s)-len(suffix):] == suffix\<close>\<close>
  "HasSuffix s suf = (length suf \<le> length s \<and> drop (length s - length suf) s = suf)"

definition TrimSuffix :: "string \<Rightarrow> string \<Rightarrow> string" where
  "TrimSuffix s suf = (if HasSuffix s suf then take (length s - length suf) s else s)"

definition ReplaceAll_byte_empty :: "string \<Rightarrow> char \<Rightarrow> string" where
  \<comment> \<open>\<open>strings.ReplaceAll(s, "c", "")\<close>: every occurrence of the byte is dropped\<close>
  "ReplaceAll_byte_empty s c = filter (\<lambda>x. x \<noteq> c) s"

section \<open>Symbol normalisation\<close>

definition suffixes :: "string list" where
  "suffixes = [''USDT'', ''USDC'', ''BUSD'', ''TUSD'', ''DAI'', ''USD'']"

text \<open>The \<open>for _, suffix := range suffixes\<close> loop: the first suffix that matches returns.\<close>

fun normalize_loop :: "string \<Rightarrow> string list \<Rightarrow> string option" where
  "normalize_loop symbol [] = None"
| "normalize_loop symbol (suf # rest) =
     (if HasSuffix symbol suf
      then Some (TrimSuffix symbol suf @ ''_'' @ suf)
      else normalize_loop symbol rest)"

definition normalizeSymbolForGateIO :: "string \<Rightarrow> string" where
  "normalizeSymbolForGateIO symbol =
     (if Contains symbol ''_'' then symbol
      else case normalize_loop symbol suffixes of
        Some r \<Rightarrow> r
      | None \<Rightarrow>
          if length symbol > 4
          then take (length symbol - 4) symbol @ ''_'' @ drop (length symbol - 4) symbol
          else symbol)"

definition DenormalizeSymbolFromGateIO :: "string \<Rightarrow> string" where
  "DenormalizeSymbolFromGateIO symbol =
     (if \<not> Contains symbol ''_'' then symbol
      else ReplaceAll_byte_empty symbol CHR ''_'')"

section \<open>Numbers\<close>

text \<open>
  A Go \<open>float64\<close> is modelled by a rational number: every value is finite and
  arithmetic and comparison are exact. NaN, the infinities and the rounding error of
  binary floating point are outside the model; the concrete inputs used below are
  decimal strings and dyadic fractions on which both agree. An \<open>int64\<close> is an
  \<^typ>\<open>int\<close>, with the range written out where a conversion can leave it.
\<close>

type_synonym float64 = rat

definition digit_char :: "nat \<Rightarrow> char" where
  "digit_char d = ''0123456789'' ! d"

definition digit_table :: "(char \<times> nat) list" where
  "digit_table =
     [(CHR ''0'', 0), (CHR ''1'', 1), (CHR ''2'', 2), (CHR ''3'', 3), (CHR ''4'', 4),
      (CHR ''5'', 5), (CHR ''6'', 6), (CHR ''7'', 7), (CHR ''8'', 8), (CHR ''9'', 9)]"

definition digit_val :: "char \<Rightarrow> nat option" where
  "digit_val c = map_of digit_table c"

text \<open>\<open>strconv.FormatUint(n, 10)\<close> and \<open>strconv.FormatInt(i, 10)\<close>.\<close>

fun FormatUint :: "nat \<Rightarrow> string" where
  "FormatUint n =
     (if n < 10 then [digit_char n]
      else FormatUint (n div 10) @ [digit_char (n mod 10)])"

declare FormatUint.simps [simp del]

definition FormatInt :: "int \<Rightarrow> string" where
  "FormatInt i = (if i < 0 then CHR ''-'' # FormatUint (nat (- i)) else FormatUint (nat i))"

text \<open>
  \<open>strconv.ParseFloat(s, 64)\<close> on plain decimal notation: an optional sign, digits, and
  an optional point followed by digits, with at least one digit in all. \<open>None\<close> is the
  syntax error. Exponents, hexadecimal floats, \<open>inf\<close> and \<open>nan\<close>, which Go also accepts,
  are not decimal strings of this kind and are rejected by the model.
\<close>

fun parse_digits :: "nat \<Rightarrow> string \<Rightarrow> nat option" where
  "parse_digits acc [] = Some acc"
| "parse_digits acc (c # cs) =
     (case digit_val c of None \<Rightarrow> None | Some d \<Rightarrow> parse_digits (10 * acc + d) cs)"

definition parse_unsigned :: "string \<Rightarrow> float64 option" where
  "parse_unsigned body =
     (let ip = takeWhile (\<lambda>c. c \<noteq> CHR ''.'') body;
          rest = dropWhile (\<lambda>c. c \<noteq> CHR ''.'') body;
          fp = (if rest = [] then [] else tl rest)
      in if ip @ fp = [] then None
         else case parse_digits 0 (ip @ fp) of
           None \<Rightarrow> None
         | Some m \<Rightarrow> Some (of_nat m / 10 ^ length fp))"

definition ParseFloat :: "string \<Rightarrow> float64 option" where
  "ParseFloat s =
     (case s of
        [] \<Rightarrow> None
      | c # cs \<Rightarrow>
          if c = CHR ''-'' then map_option uminus (parse_unsigned cs)
          else if c = CHR ''+'' then parse_unsigned cs
          else parse_unsigned s)"

definition parse_or_zero :: "string \<Rightarrow> float64" where
  \<comment> \<open>\<open>v, _ := strconv.ParseFloat(s, 64)\<close>: the error is dropped and \<open>v\<close> is 0 then\<close>
  "parse_or_zero s = (case ParseFloat s of Some v \<Rightarrow> v | None \<Rightarrow> 0)"

text \<open>
  \<open>fmt.Sprintf("%.<prec>f", x)\<close>: the value is rounded to \<open>prec\<close> decimals, a tie going
  to the even digit, and printed with a sign when negative, at least one integer digit,
  and exactly \<open>prec\<close> fraction digits (no point when \<open>prec = 0\<close>).
\<close>

definition round_half_even :: "rat \<Rightarrow> nat" where
  "round_half_even r =
     (let f = nat \<lfloor>r\<rfloor>; d = r - of_nat f
      in if d < 1 / 2 then f else if 1 / 2 < d then f + 1
         else if even f then f else f + 1)"

definition Sprintf_f :: "nat \<Rightarrow> float64 \<Rightarrow> string" where
  "Sprintf_f prec x =
     (let n = round_half_even (\<bar>x\<bar> * 10 ^ prec);
          ds = FormatUint n;
          padded = replicate (prec + 1 - length ds) CHR ''0'' @ ds;
          ip = take (length padded - prec) padded;
          fp = drop (length padded - prec) padded
      in (if x < 0 then ''-'' else []) @ ip @ (if prec = 0 then [] else CHR ''.'' # fp))"

definition round_to_prec :: "nat \<Rightarrow> float64 \<Rightarrow> float64" where
  \<comment> \<open>the number that \<open>Sprintf_f prec x\<close> denotes\<close>
  "round_to_prec prec x =
     (if x < 0 then - 1 else 1) * (of_nat (round_half_even (\<bar>x\<bar> * 10 ^ prec)) / 10 ^ prec)"

text \<open>
  The conversion \<open>int64(x)\<close> of a float truncates toward zero. Go leaves the result
  implementation-defined when the truncated value is not an \<open>int64\<close>; the model takes
  what amd64 gives there, the smallest \<open>int64\<close>.
\<close>

definition trunc :: "float64 \<Rightarrow> int" where
  "trunc x = (if 0 \<le> x then \<lfloor>x\<rfloor> else \<lceil>x\<rceil>)"

definition in_int64 :: "int \<Rightarrow> bool" where
  "in_int64 i = (- (2 ^ 63) \<le> i \<and> i < 2 ^ 63)"

definition int64_of_float :: "float64 \<Rightarrow> int" where
  "int64_of_float x = (if in_int64 (trunc x) then trunc x else - (2 ^ 63))"


section \<open>The exchange client and the trader\<close>

text \<open>
  The records of package \<open>gateapi\<close>, with the fields the trader reads or writes. Two Go
  structs may name a field alike; a record field is a constant, so each carries a
  prefix for its struct.
\<close>

record Contract =
  Name :: string
  QuantoMultiplier :: string
  OrderPriceRound :: string
  OrderSizeMin :: int

record FuturesAccount =
  Total :: string
  Available :: string
  UnrealisedPnl :: string

record Position =
  pos_Contract :: string
  pos_Size :: int
  pos_EntryPrice :: string
  pos_MarkPrice :: string
  pos_UnrealisedPnl :: string
  pos_Leverage :: string
  pos_LiqPrice :: string

record FuturesTicker =
  Last :: string

record FuturesOrder =
  ord_Id :: int
  ord_Contract :: string
  ord_Size :: int
  ord_Price :: string
  ord_ReduceOnly :: bool
  ord_Tif :: string
  ord_Text :: string
  ord_Status :: string

record FuturesInitialOrder =
  ini_Contract :: string
  ini_Size :: int
  ini_Price :: string
  ini_Tif :: string

record FuturesPriceTrigger =
  trg_StrategyType :: int
  trg_PriceType :: int
  trg_Price :: string

record FuturesPriceTriggeredOrder =
  Initial :: FuturesInitialOrder
  Trigger :: FuturesPriceTrigger
  pto_Id :: int

text \<open>
  An error of the client: the status code of the HTTP response when there is one, and
  the text of \<open>err.Error()\<close>.
\<close>

datatype api_error = ApiError (resp_StatusCode: "int option") (Error_text: string)

text \<open>
  What the exchange answers, one field for each method of \<open>client.FuturesApi\<close> that
  the trader calls. During one operation of the trader the exchange answers a request
  by its arguments alone.
\<close>

record exchange =
  ListFuturesAccounts :: "api_error + FuturesAccount"
  ListPositions :: "api_error + Position list"
  ListFuturesContracts :: "api_error + Contract list"
  ListFuturesTickers :: "string option \<Rightarrow> api_error + FuturesTicker list"
  UpdatePositionLeverage :: "string \<Rightarrow> string \<Rightarrow> api_error option"
  CancelFuturesOrders :: "string \<Rightarrow> api_error option"
  ListPriceTriggeredOrders :: "string option \<Rightarrow> api_error + FuturesPriceTriggeredOrder list"
  CancelPriceTriggeredOrder :: "string \<Rightarrow> api_error option"
  CreateFuturesOrder :: "FuturesOrder \<Rightarrow> api_error + FuturesOrder"
  CreatePriceTriggeredOrder :: "FuturesPriceTriggeredOrder \<Rightarrow> api_error option"

text \<open>The requests sent to the client, in the order of sending.\<close>

datatype api_call =
    Call_ListFuturesAccounts
  | Call_ListPositions
  | Call_ListFuturesContracts
  | Call_ListFuturesTickers "string option"
  | Call_UpdatePositionLeverage string string
  | Call_CancelFuturesOrders string
  | Call_ListPriceTriggeredOrders "string option"
  | Call_CancelPriceTriggeredOrder string
  | Call_CreateFuturesOrder FuturesOrder
  | Call_CreatePriceTriggeredOrder FuturesPriceTriggeredOrder

text \<open>
  The errors the trader returns. A constructor with an \<open>error\<close> or \<open>api_error\<close>
  argument is an \<open>fmt.Errorf("...: %w", err)\<close> around it; the others carry the values
  that the message prints.
\<close>

datatype size_hint =
    MinNotionalHint float64 float64 float64 float64
  | MinContractHint float64

datatype precision_hint =
    PrecisionNotionalHint nat float64 float64 float64
  | PrecisionTruncatedHint nat

datatype error =
    GetAccountFailed api_error
  | GetPositionsFailed api_error
  | GetSymbolInfoFailed api_error
  | SymbolNotFound string string
  | GetContractInfoFailed error
  | ConvertFailed error
  | BelowMinimumSize float64 float64 float64 size_hint
  | ZeroAfterRounding float64 float64 nat precision_hint
  | GetPriceFailed api_error
  | PriceNotFound
  | ParseFloatError string
  | InvalidLeverage int
  | SetLeverageFailed api_error
  | ParseFormattedFailed string
  | GetMarketPriceFailed error
  | BelowMinimumNotional float64 float64 float64 float64
  | OpenLongFailed api_error
  | OpenShortFailed api_error
  | NoLongPosition string
  | NoShortPosition string
  | CloseLongFailed api_error
  | CloseShortFailed api_error
  | ListTriggeredFailed api_error
  | SetStopLossFailed api_error
  | SetTakeProfitFailed api_error

text \<open>
  Time is counted in nanoseconds. \<open>time.Since(t)\<close> is \<open>now - t\<close>, kept within the range of
  a \<open>time.Duration\<close>. The clock is read once for an operation: \<open>now\<close> is an argument.
\<close>

type_synonym time = int
type_synonym duration = int

definition Second :: duration where
  "Second = 1000000000"

definition Minute :: duration where
  "Minute = 60 * Second"

definition zeroTime :: time where
  \<comment> \<open>the zero \<open>time.Time\<close>, year 1, counted from the Unix epoch\<close>
  "zeroTime = - 62135596800 * Second"

definition Since :: "time \<Rightarrow> time \<Rightarrow> duration" where
  "Since now t = max (- (2 ^ 63)) (min (2 ^ 63 - 1) (now - t))"

text \<open>
  The balance and position maps (\<open>map[string]interface{}\<close>) have fixed keys and are
  records (the fields of a position map carry the prefix \<open>pm\<close>). A nil slice of positions is the empty list: \<open>GetPositions\<close> only appends to a
  nil slice, so its result is nil exactly when it is empty.
\<close>

record balance =
  totalWalletBalance :: float64
  availableBalance :: float64
  totalUnrealizedProfit :: float64

record posMap =
  pm_symbol :: string
  pm_positionAmt :: float64
  pm_entryPrice :: float64
  pm_markPrice :: float64
  pm_unRealizedProfit :: float64
  pm_leverage :: float64
  pm_liquidationPrice :: float64
  pm_side :: string

text \<open>
  The trader. \<open>calls\<close> is not a field of the Go struct: it lists the requests sent to
  the client so far, so that what an operation sends can be stated.
\<close>

record GateIOFuturesTrader =
  cachedBalance :: "balance option"
  balanceCacheTime :: time
  cachedPositions :: "posMap list"
  positionsCacheTime :: time
  symbolInfoCache :: "string \<rightharpoonup> Contract"
  symbolInfoCacheTime :: time
  cacheDuration :: duration
  calls :: "api_call list"

definition send :: "api_call \<Rightarrow> GateIOFuturesTrader \<Rightarrow> GateIOFuturesTrader" where
  "send c t = t\<lparr>calls := calls t @ [c]\<rparr>"

definition NewGateIOFuturesTrader :: GateIOFuturesTrader where
  "NewGateIOFuturesTrader =
     \<lparr>cachedBalance = None, balanceCacheTime = zeroTime,
      cachedPositions = [], positionsCacheTime = zeroTime,
      symbolInfoCache = Map.empty, symbolInfoCacheTime = zeroTime,
      cacheDuration = 15 * Second, calls = []\<rparr>"

section \<open>The metadata cache\<close>

definition balance_of_account :: "FuturesAccount \<Rightarrow> balance" where
  \<comment> \<open>the result map that \<open>GetBalance\<close> builds from the account\<close>
  "balance_of_account account =
     \<lparr>totalWalletBalance = parse_or_zero (Total account),
      availableBalance = parse_or_zero (Available account),
      totalUnrealizedProfit = parse_or_zero (UnrealisedPnl account)\<rparr>"

definition GetBalance ::
  "exchange \<Rightarrow> time \<Rightarrow> GateIOFuturesTrader \<Rightarrow> (error + balance) \<times> GateIOFuturesTrader" where
  "GetBalance ex now t =
     (case (if Since now (balanceCacheTime t) < cacheDuration t then cachedBalance t else None) of
        Some b \<Rightarrow> (Inr b, t)
      | None \<Rightarrow>
          let t1 = send Call_ListFuturesAccounts t in
          (case ListFuturesAccounts ex of
             Inl err \<Rightarrow> (Inl (GetAccountFailed err), t1)
           | Inr account \<Rightarrow>
               let result = balance_of_account account
               in (Inr result, t1\<lparr>cachedBalance := Some result, balanceCacheTime := now\<rparr>)))"

text \<open>
  \<open>getSymbolInfo\<close>. A fresh cache entry is returned; otherwise the whole table is
  fetched and replaces the cached one, a later contract of the same name overwriting
  an earlier one.
\<close>

definition fill_cache :: "Contract list \<Rightarrow> (string \<rightharpoonup> Contract)" where
  "fill_cache contracts = fold (\<lambda>contract m. m(Name contract \<mapsto> contract)) contracts Map.empty"

definition getSymbolInfo ::
  "exchange \<Rightarrow> time \<Rightarrow> string \<Rightarrow> GateIOFuturesTrader \<Rightarrow> (error + Contract) \<times> GateIOFuturesTrader" where
  "getSymbolInfo ex now symbol t =
     (let gateIOSymbol = normalizeSymbolForGateIO symbol;
          hit = (case symbolInfoCache t gateIOSymbol of
                   Some info \<Rightarrow>
                     if Since now (symbolInfoCacheTime t) < 5 * Minute then Some info else None
                 | None \<Rightarrow> None)
      in case hit of
        Some info \<Rightarrow> (Inr info, t)
      | None \<Rightarrow>
          let t1 = send Call_ListFuturesContracts t in
          (case ListFuturesContracts ex of
             Inl err \<Rightarrow> (Inl (GetSymbolInfoFailed err), t1)
           | Inr contracts \<Rightarrow>
               let t2 = t1\<lparr>symbolInfoCache := fill_cache contracts, symbolInfoCacheTime := now\<rparr>
               in (case symbolInfoCache t2 gateIOSymbol of
                     Some info \<Rightarrow> (Inr info, t2)
                   | None \<Rightarrow> (Inl (SymbolNotFound symbol gateIOSymbol), t2))))"

text \<open>
  The multiplier of a contract: 1 unless \<open>QuantoMultiplier\<close> is present, parses and is
  positive. The source repeats these lines wherever it needs the multiplier.
\<close>

definition quantoMultiplier :: "Contract \<Rightarrow> float64" where
  "quantoMultiplier info =
     (if QuantoMultiplier info \<noteq> []
      then (case ParseFloat (QuantoMultiplier info) of
              Some parsed \<Rightarrow> if parsed > 0 then parsed else 1
            | None \<Rightarrow> 1)
      else 1)"




section \<open>The quantity conversion engine\<close>

definition convertCoinQuantityToContractSize ::
  "exchange \<Rightarrow> time \<Rightarrow> string \<Rightarrow> float64 \<Rightarrow> GateIOFuturesTrader \<Rightarrow>
     (error + float64) \<times> GateIOFuturesTrader" where
  "convertCoinQuantityToContractSize ex now symbol coinQuantity t =
     (case getSymbolInfo ex now symbol t of
        (Inl err, t1) \<Rightarrow> (Inl (GetContractInfoFailed err), t1)
      | (Inr info, t1) \<Rightarrow> (Inr (coinQuantity / quantoMultiplier info), t1))"

definition GetMarketPrice ::
  "exchange \<Rightarrow> string \<Rightarrow> GateIOFuturesTrader \<Rightarrow> (error + float64) \<times> GateIOFuturesTrader" where
  "GetMarketPrice ex symbol t =
     (let gateIOSymbol = normalizeSymbolForGateIO symbol;
          opts = (if gateIOSymbol \<noteq> [] then Some gateIOSymbol else None);
          t1 = send (Call_ListFuturesTickers opts) t
      in case ListFuturesTickers ex opts of
        Inl err \<Rightarrow> (Inl (GetPriceFailed err), t1)
      | Inr tickers \<Rightarrow>
          (case tickers of
             [] \<Rightarrow> (Inl PriceNotFound, t1)
           | ticker # _ \<Rightarrow>
               (case ParseFloat (Last ticker) of
                  None \<Rightarrow> (Inl (ParseFloatError (Last ticker)), t1)
                | Some price \<Rightarrow> (Inr price, t1))))"

text \<open>\<open>strings.Split(s, ".")\<close> for a one-byte separator.\<close>

fun Split :: "string \<Rightarrow> char \<Rightarrow> string list" where
  "Split [] sep = [[]]"
| "Split (c # cs) sep =
     (if c = sep then [] # Split cs sep
      else case Split cs sep of
        part # parts \<Rightarrow> (c # part) # parts
      | [] \<Rightarrow> [[c]])"

definition precision_of :: "Contract \<Rightarrow> nat" where
  "precision_of info =
     (if OrderPriceRound info \<noteq> [] \<and> Contains (OrderPriceRound info) ''.''
      then (let parts = Split (OrderPriceRound info) CHR ''.''
            in if length parts = 2 then length (parts ! 1) else 3)
      else 3)"

text \<open>
  The power \<open>math.Pow10(precision)\<close> is \<open>10 ^ precision\<close> in the model (Go gives 0 or
  infinity outside the range of a float).
\<close>

text \<open>
  The two failing branches of \<open>FormatQuantity\<close>, each an error with a hint computed
  from the market price when there is one: the contract size is below the minimum order
  size of the contract; the formatted size does not parse or is not positive.
\<close>

definition below_minimum ::
  "exchange \<Rightarrow> string \<Rightarrow> float64 \<Rightarrow> float64 \<Rightarrow> float64 \<Rightarrow> Contract \<Rightarrow> GateIOFuturesTrader \<Rightarrow>
     (error + string) \<times> GateIOFuturesTrader" where
  "below_minimum ex symbol quantity contractSize minContractSize info t =
     (case GetMarketPrice ex symbol t of
        (Inr price, t1) \<Rightarrow>
          if price > 0 then
            let minCoinQuantity = minContractSize * quantoMultiplier info;
                minNotional = minCoinQuantity * price
            in (Inl (BelowMinimumSize quantity contractSize minContractSize
                      (MinNotionalHint minNotional minContractSize minCoinQuantity price)), t1)
          else (Inl (BelowMinimumSize quantity contractSize minContractSize
                      (MinContractHint minContractSize)), t1)
      | (Inl priceErr, t1) \<Rightarrow>
          (Inl (BelowMinimumSize quantity contractSize minContractSize
                 (MinContractHint minContractSize)), t1))"

definition zero_after_rounding ::
  "exchange \<Rightarrow> string \<Rightarrow> float64 \<Rightarrow> float64 \<Rightarrow> nat \<Rightarrow> Contract \<Rightarrow> GateIOFuturesTrader \<Rightarrow>
     (error + string) \<times> GateIOFuturesTrader" where
  "zero_after_rounding ex symbol quantity contractSize precision info t =
     (case GetMarketPrice ex symbol t of
        (Inr price, t1) \<Rightarrow>
          if price > 0 then
            let minContractQuantity = 1 / 10 ^ precision;
                minCoinQuantity = minContractQuantity * quantoMultiplier info;
                minNotional = minCoinQuantity * price
            in (Inl (ZeroAfterRounding quantity contractSize precision
                      (PrecisionNotionalHint precision minContractQuantity minCoinQuantity minNotional)), t1)
          else (Inl (ZeroAfterRounding quantity contractSize precision
                      (PrecisionTruncatedHint precision)), t1)
      | (Inl priceErr, t1) \<Rightarrow>
          (Inl (ZeroAfterRounding quantity contractSize precision
                 (PrecisionTruncatedHint precision)), t1))"

definition FormatQuantity ::
  "exchange \<Rightarrow> time \<Rightarrow> string \<Rightarrow> float64 \<Rightarrow> GateIOFuturesTrader \<Rightarrow>
     (error + string) \<times> GateIOFuturesTrader" where
  "FormatQuantity ex now symbol quantity t =
     (case getSymbolInfo ex now symbol t of
        (Inl err, t1) \<Rightarrow> (Inr (Sprintf_f 3 quantity), t1)
      | (Inr info, t1) \<Rightarrow>
          (case convertCoinQuantityToContractSize ex now symbol quantity t1 of
             (Inl err, t2) \<Rightarrow> (Inl (ConvertFailed err), t2)
           | (Inr contractSize, t2) \<Rightarrow>
               let precision = precision_of info;
                   minContractSize = (of_int (OrderSizeMin info) :: float64)
               in
               if OrderSizeMin info > 0 \<and> contractSize < minContractSize then
                 below_minimum ex symbol quantity contractSize minContractSize info t2
               else
                 let formatted = Sprintf_f precision contractSize in
                 (case ParseFloat formatted of
                    Some formattedFloat \<Rightarrow>
                      if formattedFloat \<le> 0
                      then zero_after_rounding ex symbol quantity contractSize precision info t2
                      else (Inr formatted, t2)
                  | None \<Rightarrow> zero_after_rounding ex symbol quantity contractSize precision info t2)))"

section \<open>The order orchestrator\<close>

text \<open>
  What an order operation returns on success (the map with the keys \<open>orderId\<close>,
  \<open>symbol\<close> and \<open>status\<close>).
\<close>

record order_result =
  orderId :: int
  res_symbol :: string
  status :: string

definition order_result_of :: "FuturesOrder \<Rightarrow> order_result" where
  "order_result_of order =
     \<lparr>orderId = ord_Id order, res_symbol = ord_Contract order, status = ord_Status order\<rparr>"

text \<open>
  \<open>CancelAllOrders\<close>: the standing orders are cancelled in one request, whose error is
  only logged; then each open price-triggered order with a positive id is cancelled by
  its id. The result is always nil.
\<close>

fun cancel_triggered_loop ::
  "exchange \<Rightarrow> FuturesPriceTriggeredOrder list \<Rightarrow> GateIOFuturesTrader \<Rightarrow> GateIOFuturesTrader" where
  "cancel_triggered_loop ex [] t = t"
| "cancel_triggered_loop ex (order # rest) t =
     (if pto_Id order > 0
      then cancel_triggered_loop ex rest
             (send (Call_CancelPriceTriggeredOrder (FormatInt (pto_Id order))) t)
      else cancel_triggered_loop ex rest t)"

definition CancelAllOrders ::
  "exchange \<Rightarrow> string \<Rightarrow> GateIOFuturesTrader \<Rightarrow> error option \<times> GateIOFuturesTrader" where
  "CancelAllOrders ex symbol t =
     (let gateIOSymbol = normalizeSymbolForGateIO symbol;
          t1 = send (Call_CancelFuturesOrders gateIOSymbol) t;
          opts = (if gateIOSymbol \<noteq> [] then Some gateIOSymbol else None);
          t2 = send (Call_ListPriceTriggeredOrders opts) t1
      in case ListPriceTriggeredOrders ex opts of
        Inr priceOrders \<Rightarrow> (None, cancel_triggered_loop ex priceOrders t2)
      | Inl err \<Rightarrow> (None, t2))"

definition SetLeverage ::
  "exchange \<Rightarrow> string \<Rightarrow> int \<Rightarrow> GateIOFuturesTrader \<Rightarrow> error option \<times> GateIOFuturesTrader" where
  "SetLeverage ex symbol lev t =
     (let gateIOSymbol = normalizeSymbolForGateIO symbol in
      if lev \<le> 0 then (Some (InvalidLeverage lev), t)
      else
        let t1 = send (Call_UpdatePositionLeverage gateIOSymbol (FormatInt lev)) t in
        (case UpdatePositionLeverage ex gateIOSymbol (FormatInt lev) of
           None \<Rightarrow> (None, t1)
         | Some err \<Rightarrow>
             if (case resp_StatusCode err of
                   Some code \<Rightarrow> 200 \<le> code \<and> code < 300
                 | None \<Rightarrow> False) \<and>
                (Contains (Error_text err) ''cannot unmarshal array'' \<or>
                 Contains (Error_text err) ''unmarshal'')
             then (None, t1)
             else if Contains (Error_text err) ''already'' \<or> Contains (Error_text err) ''same''
             then (None, t1)
             else (Some (SetLeverageFailed err), t1)))"

definition GetMinNotional :: "string \<Rightarrow> float64" where
  "GetMinNotional symbol = 10"

definition CheckMinNotional ::
  "exchange \<Rightarrow> string \<Rightarrow> float64 \<Rightarrow> GateIOFuturesTrader \<Rightarrow> error option \<times> GateIOFuturesTrader" where
  "CheckMinNotional ex symbol quantity t =
     (case GetMarketPrice ex symbol t of
        (Inl err, t1) \<Rightarrow> (Some (GetMarketPriceFailed err), t1)
      | (Inr price, t1) \<Rightarrow>
          let notionalValue = quantity * price;
              minNotional = GetMinNotional symbol
          in if notionalValue < minNotional
             then (Some (BelowMinimumNotional notionalValue minNotional quantity price), t1)
             else (None, t1))"

text \<open>
  The order that the four market operations send: a market order (price \<open>0\<close>),
  immediate-or-cancel. Id and status are filled by the exchange.
\<close>

definition market_order :: "string \<Rightarrow> int \<Rightarrow> bool \<Rightarrow> string \<Rightarrow> FuturesOrder" where
  "market_order gateIOSymbol sz reduceOnly txt =
     \<lparr>ord_Id = 0, ord_Contract = gateIOSymbol, ord_Size = sz, ord_Price = ''0'',
      ord_ReduceOnly = reduceOnly, ord_Tif = ''ioc'', ord_Text = txt, ord_Status = []\<rparr>"

definition OpenLong ::
  "exchange \<Rightarrow> time \<Rightarrow> string \<Rightarrow> float64 \<Rightarrow> int \<Rightarrow> GateIOFuturesTrader \<Rightarrow>
     (error + order_result) \<times> GateIOFuturesTrader" where
  "OpenLong ex now symbol quantity lev t =
     (let (cancelErr, t1) = CancelAllOrders ex symbol t in
      case SetLeverage ex symbol lev t1 of
        (Some err, t2) \<Rightarrow> (Inl err, t2)
      | (None, t2) \<Rightarrow>
          (case FormatQuantity ex now symbol quantity t2 of
             (Inl err, t3) \<Rightarrow> (Inl err, t3)
           | (Inr quantityStr, t3) \<Rightarrow>
               (case ParseFloat quantityStr of
                  None \<Rightarrow> (Inl (ParseFormattedFailed quantityStr), t3)
                | Some contractSizeFloat \<Rightarrow>
                    (case CheckMinNotional ex symbol quantity t3 of
                       (Some err, t4) \<Rightarrow> (Inl err, t4)
                     | (None, t4) \<Rightarrow>
                         let gateIOSymbol = normalizeSymbolForGateIO symbol;
                             quantityInt64 = int64_of_float contractSizeFloat;
                             req = market_order gateIOSymbol quantityInt64 False ''t-gateio-futures'';
                             t5 = send (Call_CreateFuturesOrder req) t4
                         in (case CreateFuturesOrder ex req of
                               Inl err \<Rightarrow> (Inl (OpenLongFailed err), t5)
                             | Inr order \<Rightarrow> (Inr (order_result_of order), t5))))))"









section \<open>The trigger order classifier\<close>







text \<open>What an operation has sent: the requests after those already in \<open>calls t\<close>.\<close>

definition sent_by :: "GateIOFuturesTrader \<Rightarrow> GateIOFuturesTrader \<Rightarrow> api_call list" where
  "sent_by t t' = drop (length (calls t)) (calls t')"

fun created_orders :: "api_call list \<Rightarrow> FuturesOrder list" where
  "created_orders [] = []"
| "created_orders (Call_CreateFuturesOrder order # cs) = order # created_orders cs"
| "created_orders (c # cs) = created_orders cs"

fun created_triggered_orders :: "api_call list \<Rightarrow> FuturesPriceTriggeredOrder list" where
  "created_triggered_orders [] = []"
| "created_triggered_orders (Call_CreatePriceTriggeredOrder order # cs) =
     order # created_triggered_orders cs"
| "created_triggered_orders (c # cs) = created_triggered_orders cs"

fun cancelled_triggered_ids :: "api_call list \<Rightarrow> string list" where
  "cancelled_triggered_ids [] = []"
| "cancelled_triggered_ids (Call_CancelPriceTriggeredOrder ident # cs) =
     ident # cancelled_triggered_ids cs"
| "cancelled_triggered_ids (c # cs) = cancelled_triggered_ids cs"

section \<open>Example exchanges\<close>

text \<open>
  Concrete answers of the exchange, on which the operations are run below: an account,
  a last price of 100 for every contract, requests that succeed, and as parameters the
  answer to the contract listing, the open positions and the open price-triggered
  orders.
\<close>

definition example_account :: FuturesAccount where
  "example_account = \<lparr>Total = ''1000.5'', Available = ''900.25'', UnrealisedPnl = ''-3.5''\<rparr>"

definition example_exchange ::
  "api_error + Contract list \<Rightarrow> Position list \<Rightarrow> FuturesPriceTriggeredOrder list \<Rightarrow> exchange" where
  "example_exchange contracts positions orders =
     \<lparr>ListFuturesAccounts = Inr example_account,
      ListPositions = Inr positions,
      ListFuturesContracts = contracts,
      ListFuturesTickers = (\<lambda>opts. Inr [\<lparr>Last = ''100''\<rparr>]),
      UpdatePositionLeverage = (\<lambda>contract lev. None),
      CancelFuturesOrders = (\<lambda>contract. None),
      ListPriceTriggeredOrders = (\<lambda>opts. Inr orders),
      CancelPriceTriggeredOrder = (\<lambda>ident. None),
      CreateFuturesOrder = (\<lambda>order. Inr (order\<lparr>ord_Id := 1, ord_Status := ''finished''\<rparr>)),
      CreatePriceTriggeredOrder = (\<lambda>order. None)\<rparr>"




section \<open>Vocabulary of the statements\<close>

text \<open>
  Digits, and the digits that \<open>Sprintf_f\<close> prints before the point is placed.
\<close>

definition is_digit :: "char \<Rightarrow> bool" where
  "is_digit c = (digit_val c \<noteq> None)"

definition padded_digits :: "nat \<Rightarrow> nat \<Rightarrow> string" where
  "padded_digits prec n = replicate (prec + 1 - length (FormatUint n)) CHR ''0'' @ FormatUint n"

text \<open>
  Lists of requests that create no order, and that neither create an order nor cancel a
  price-triggered one.
\<close>

definition no_orders :: "api_call list \<Rightarrow> bool" where
  "no_orders cs = (created_orders cs = [] \<and> created_triggered_orders cs = [])"

definition quiet :: "api_call list \<Rightarrow> bool" where
  "quiet cs = (created_orders cs = [] \<and> created_triggered_orders cs = [] \<and>
     cancelled_triggered_ids cs = [])"



text \<open>
  The values that the two selective cancellations compute before their loop: the option for the listing, the current price (0 when it cannot be had) and the side of the position; and an order whose size has the sign opposite to the position.
\<close>

definition trigger_opts :: "string \<Rightarrow> string option" where
  "trigger_opts symbol =
     (if normalizeSymbolForGateIO symbol \<noteq> [] then Some (normalizeSymbolForGateIO symbol)
      else None)"




text \<open>
  The trader an opening operation formats the quantity on, after the cancellation of the standing orders and the setting of the leverage; the absolute value that the closing operations take of a contract count, on int64.
\<close>

definition open_prestate ::
  "exchange \<Rightarrow> string \<Rightarrow> int \<Rightarrow> GateIOFuturesTrader \<Rightarrow> GateIOFuturesTrader" where
  "open_prestate ex symbol lev t =
     snd (SetLeverage ex symbol lev (snd (CancelAllOrders ex symbol t)))"





section \<open>Properties of the symbol normaliser\<close>

lemma Contains_underscore: "Contains s ''_'' = (CHR ''_'' \<in> set s)"
  by (induction s) (auto simp: HasPrefix_def)

lemma filter_underscore_id:
  "CHR ''_'' \<notin> set s \<Longrightarrow> filter (\<lambda>x. x \<noteq> CHR ''_'') s = s"
  by (induction s) auto

lemma HasSuffix_split:
  "HasSuffix s suf \<Longrightarrow> TrimSuffix s suf @ suf = s"
  by (metis HasSuffix_def TrimSuffix_def append_take_drop_id)

lemma normalize_loop_split:
  "normalize_loop s sufs = Some r \<Longrightarrow> \<exists>a b. r = a @ ''_'' @ b \<and> a @ b = s"
proof (induction sufs)
  case Nil
  then show ?case by simp
next
  case (Cons suf rest)
  show ?case
  proof (cases "HasSuffix s suf")
    case True
    with Cons.prems have "r = TrimSuffix s suf @ ''_'' @ suf" by simp
    with True show ?thesis using HasSuffix_split by blast
  next
    case False
    with Cons show ?thesis by simp
  qed
qed

lemma normalize_shape:
  "CHR ''_'' \<notin> set s \<Longrightarrow>
     normalizeSymbolForGateIO s = s \<or>
     (\<exists>a b. normalizeSymbolForGateIO s = a @ ''_'' @ b \<and> a @ b = s)"
proof -
  assume "CHR ''_'' \<notin> set s"
  show ?thesis
  proof (cases "normalize_loop s suffixes")
    case None
    show ?thesis
    proof (cases "length s > 4")
      case True
      with None \<open>CHR ''_'' \<notin> set s\<close>
      have "normalizeSymbolForGateIO s =
          take (length s - 4) s @ ''_'' @ drop (length s - 4) s"
        by (simp add: normalizeSymbolForGateIO_def Contains_underscore)
      moreover have "take (length s - 4) s @ drop (length s - 4) s = s"
        by simp
      ultimately show ?thesis by blast
    next
      case False
      with None \<open>CHR ''_'' \<notin> set s\<close> show ?thesis
        by (simp add: normalizeSymbolForGateIO_def Contains_underscore)
    qed
  next
    case (Some r)
    with normalize_loop_split obtain a b where "r = a @ ''_'' @ b" "a @ b = s"
      by blast
    with Some \<open>CHR ''_'' \<notin> set s\<close> show ?thesis
      unfolding normalizeSymbolForGateIO_def
      by (auto simp: Contains_underscore)
  qed
qed

text \<open>
  C6. For every canonical symbol \<open>S\<close>, that is a string without the separator \<open>_\<close>,
  denormalising the normalised symbol gives \<open>S\<close> back:
  \<open>DenormalizeSymbolFromGateIO (normalizeSymbolForGateIO S) = S\<close>.
\<close>

theorem C6_symbol_roundtrip:
  assumes "CHR ''_'' \<notin> set S"
  shows "DenormalizeSymbolFromGateIO (normalizeSymbolForGateIO S) = S"
proof -
  from normalize_shape [OF assms] consider
    (same) "normalizeSymbolForGateIO S = S"
  | (split) a b where "normalizeSymbolForGateIO S = a @ ''_'' @ b" "a @ b = S"
    by blast
  then show ?thesis
  proof cases
    case same
    with assms show ?thesis
      by (simp add: DenormalizeSymbolFromGateIO_def Contains_underscore)
  next
    case split
    from split(2) assms have "CHR ''_'' \<notin> set a" "CHR ''_'' \<notin> set b" by auto
    then have "filter (\<lambda>x. x \<noteq> CHR ''_'') (a @ ''_'' @ b) = a @ b"
      by (simp add: filter_underscore_id)
    with split show ?thesis
      by (simp add: DenormalizeSymbolFromGateIO_def Contains_underscore
          ReplaceAll_byte_empty_def)
  qed
qed

theorem C6_symbol_roundtrip_witness:
  "CHR ''_'' \<notin> set ''BTCUSDT'' \<and>
   normalizeSymbolForGateIO ''BTCUSDT'' = ''BTC_USDT'' \<and>
   DenormalizeSymbolFromGateIO (normalizeSymbolForGateIO ''BTCUSDT'') = ''BTCUSDT''"
proof -
  have h: "CHR ''_'' \<notin> set ''BTCUSDT''" by simp
  have n: "normalizeSymbolForGateIO ''BTCUSDT'' = ''BTC_USDT''"
    by (simp add: normalizeSymbolForGateIO_def Contains_underscore suffixes_def
        HasSuffix_def TrimSuffix_def)
  from h n C6_symbol_roundtrip [OF h] show ?thesis by simp
qed

text \<open>
  C7, as stated, at the four-byte symbol \<open>ABCD\<close>: it has no separator and none of the
  known suffixes, and inserting the separator four bytes from the end would give
  \<open>_ABCD\<close>; the guard \<open>len(symbol) > 4\<close> returns the symbol unchanged instead.
\<close>

theorem C7_short_symbol_counterexample:
  "CHR ''_'' \<notin> set ''ABCD'' \<and>
   \<not> HasSuffix ''ABCD'' ''USDT'' \<and> \<not> HasSuffix ''ABCD'' ''USDC'' \<and>
   \<not> HasSuffix ''ABCD'' ''BUSD'' \<and> \<not> HasSuffix ''ABCD'' ''TUSD'' \<and>
   \<not> HasSuffix ''ABCD'' ''DAI'' \<and> \<not> HasSuffix ''ABCD'' ''USD'' \<and>
   normalizeSymbolForGateIO ''ABCD'' = ''ABCD'' \<and>
   normalizeSymbolForGateIO ''ABCD'' \<noteq>
     take (length ''ABCD'' - 4) ''ABCD'' @ ''_'' @ drop (length ''ABCD'' - 4) ''ABCD''"
  by (simp add: normalizeSymbolForGateIO_def Contains_underscore suffixes_def HasSuffix_def)

lemma normalize_loop_None:
  "(\<forall>suf \<in> set sufs. \<not> HasSuffix s suf) \<Longrightarrow> normalize_loop s sufs = None"
  by (induction sufs) auto

text \<open>
  C7, amended. For every symbol that has no separator and ends in none of the known
  quote-currency suffixes: when the symbol is longer than four bytes the separator is
  inserted four bytes from the end, and a symbol of at most four bytes is returned
  unchanged.
\<close>

theorem C7_fallback_insertion:
  assumes "CHR ''_'' \<notin> set symbol"
    and "\<forall>suf \<in> set suffixes. \<not> HasSuffix symbol suf"
  shows "normalizeSymbolForGateIO symbol =
     (if length symbol > 4
      then take (length symbol - 4) symbol @ ''_'' @ drop (length symbol - 4) symbol
      else symbol)"
  using assms normalize_loop_None [of suffixes symbol]
  by (simp add: normalizeSymbolForGateIO_def Contains_underscore)

theorem C7_fallback_insertion_witness:
  "CHR ''_'' \<notin> set ''ETHBTC'' \<and>
   \<not> HasSuffix ''ETHBTC'' ''USDT'' \<and> \<not> HasSuffix ''ETHBTC'' ''USDC'' \<and>
   \<not> HasSuffix ''ETHBTC'' ''BUSD'' \<and> \<not> HasSuffix ''ETHBTC'' ''TUSD'' \<and>
   \<not> HasSuffix ''ETHBTC'' ''DAI'' \<and> \<not> HasSuffix ''ETHBTC'' ''USD'' \<and>
   normalizeSymbolForGateIO ''ETHBTC'' = ''ET_HBTC'' \<and>
   normalizeSymbolForGateIO ''BTC'' = ''BTC''"
proof -
  have h1: "CHR ''_'' \<notin> set ''ETHBTC''" by simp
  have h2: "\<forall>suf \<in> set suffixes. \<not> HasSuffix ''ETHBTC'' suf"
    by (simp add: suffixes_def HasSuffix_def)
  have g1: "CHR ''_'' \<notin> set ''BTC''" by simp
  have g2: "\<forall>suf \<in> set suffixes. \<not> HasSuffix ''BTC'' suf"
    by (simp add: suffixes_def HasSuffix_def)
  from C7_fallback_insertion [OF h1 h2] C7_fallback_insertion [OF g1 g2] h1 h2
  show ?thesis by (simp add: suffixes_def)
qed

section \<open>Parsing what was printed\<close>

lemma digit_val_digit_char: "d < 10 \<Longrightarrow> digit_val (digit_char d) = Some d"
proof -
  assume "d < 10"
  then have "d \<in> {0, 1, 2, 3, 4, 5, 6, 7, 8, 9}" by auto
  then show ?thesis
    by (auto simp: digit_val_def digit_table_def digit_char_def)
qed

lemma is_digit_not_special:
  "is_digit c \<Longrightarrow> c \<noteq> CHR ''.'' \<and> c \<noteq> CHR ''-'' \<and> c \<noteq> CHR ''+''"
  by (auto simp: is_digit_def digit_val_def digit_table_def)

lemma is_digit_digit_char: "d < 10 \<Longrightarrow> is_digit (digit_char d)"
  by (simp add: is_digit_def digit_val_digit_char)

lemma is_digit_zero: "is_digit CHR ''0''"
  by (simp add: is_digit_def digit_val_def digit_table_def)

lemma parse_digits_append:
  "parse_digits acc (xs @ ys) =
     (case parse_digits acc xs of None \<Rightarrow> None | Some a \<Rightarrow> parse_digits a ys)"
  by (induction xs arbitrary: acc) (auto split: option.splits)

lemma FormatUint_digits: "list_all is_digit (FormatUint n)"
proof (induction n rule: FormatUint.induct)
  case (1 n)
  show ?case
  proof (cases "n < 10")
    case True
    then show ?thesis by (simp add: FormatUint.simps [of n] is_digit_digit_char)
  next
    case False
    with 1 have "list_all is_digit (FormatUint (n div 10))" by simp
    moreover have "is_digit (digit_char (n mod 10))" by (simp add: is_digit_digit_char)
    ultimately show ?thesis using False by (simp add: FormatUint.simps [of n])
  qed
qed


lemma parse_digits_FormatUint:
  "parse_digits acc (FormatUint n) = Some (acc * 10 ^ length (FormatUint n) + n)"
proof (induction n arbitrary: acc rule: FormatUint.induct)
  case (1 n)
  show ?case
  proof (cases "n < 10")
    case True
    then show ?thesis
      by (simp add: FormatUint.simps [of n] digit_val_digit_char)
  next
    case False
    have d: "digit_val (digit_char (n mod 10)) = Some (n mod 10)"
      by (simp add: digit_val_digit_char)
    from False 1 have ih: "parse_digits acc (FormatUint (n div 10)) =
        Some (acc * 10 ^ length (FormatUint (n div 10)) + n div 10)" by simp
    have "parse_digits acc (FormatUint n) =
        parse_digits acc (FormatUint (n div 10) @ [digit_char (n mod 10)])"
      using False by (simp add: FormatUint.simps [of n])
    also have "\<dots> = Some (10 * (acc * 10 ^ length (FormatUint (n div 10)) + n div 10) + n mod 10)"
      by (simp add: parse_digits_append ih d)
    also have "\<dots> = Some (acc * 10 ^ length (FormatUint n) + n)"
      using False by (simp add: FormatUint.simps [of n] algebra_simps)
    finally show ?thesis .
  qed
qed

lemma parse_digits_zeros:
  "parse_digits acc (replicate k CHR ''0'') = Some (acc * 10 ^ k)"
  by (induction k arbitrary: acc) (auto simp: digit_val_def digit_table_def)

lemma parse_digits_padded:
  "parse_digits 0 (replicate k CHR ''0'' @ FormatUint n) = Some n"
  by (simp add: parse_digits_append parse_digits_zeros parse_digits_FormatUint)

lemma takeWhile_digits:
  "list_all is_digit xs \<Longrightarrow> takeWhile (\<lambda>c. c \<noteq> CHR ''.'') (xs @ CHR ''.'' # ys) = xs"
  by (induction xs) (auto dest: is_digit_not_special)

lemma dropWhile_digits:
  "list_all is_digit xs \<Longrightarrow> dropWhile (\<lambda>c. c \<noteq> CHR ''.'') (xs @ CHR ''.'' # ys) = CHR ''.'' # ys"
  by (induction xs) (auto dest: is_digit_not_special)

lemma takeWhile_digits_all:
  "list_all is_digit xs \<Longrightarrow> takeWhile (\<lambda>c. c \<noteq> CHR ''.'') xs = xs"
  by (induction xs) (auto dest: is_digit_not_special)

lemma dropWhile_digits_all:
  "list_all is_digit xs \<Longrightarrow> dropWhile (\<lambda>c. c \<noteq> CHR ''.'') xs = []"
  by (induction xs) (auto dest: is_digit_not_special)

lemma padded_digits_all: "list_all is_digit (padded_digits prec n)"
proof -
  have "list_all is_digit (replicate k CHR ''0'')" for k
    by (induction k) (simp_all add: is_digit_zero)
  then show ?thesis
    by (simp add: padded_digits_def FormatUint_digits)
qed

lemma padded_digits_length: "prec < length (padded_digits prec n)"
  by (simp add: padded_digits_def)

lemma parse_digits_padded_digits: "parse_digits 0 (padded_digits prec n) = Some n"
  by (simp add: padded_digits_def parse_digits_padded)

lemma Sprintf_f_shape:
  "Sprintf_f prec x =
     (if x < 0 then ''-'' else []) @
     take (length (padded_digits prec (round_half_even (\<bar>x\<bar> * 10 ^ prec))) - prec)
       (padded_digits prec (round_half_even (\<bar>x\<bar> * 10 ^ prec))) @
     (if prec = 0 then []
      else CHR ''.'' #
        drop (length (padded_digits prec (round_half_even (\<bar>x\<bar> * 10 ^ prec))) - prec)
          (padded_digits prec (round_half_even (\<bar>x\<bar> * 10 ^ prec))))"
  by (simp add: Sprintf_f_def padded_digits_def Let_def)

lemma parse_unsigned_fixed:
  assumes "list_all is_digit ds" and "prec < length ds" and "parse_digits 0 ds = Some n"
  shows "parse_unsigned (take (length ds - prec) ds @
           (if prec = 0 then [] else CHR ''.'' # drop (length ds - prec) ds)) =
         Some (of_nat n / 10 ^ prec)"
proof (cases "prec = 0")
  case True
  with assms show ?thesis
    by (auto simp: parse_unsigned_def takeWhile_digits_all dropWhile_digits_all)
next
  case False
  let ?ip = "take (length ds - prec) ds"
  let ?fp = "drop (length ds - prec) ds"
  from assms(1) have ip: "list_all is_digit ?ip"
    by (auto simp: list_all_iff dest: in_set_takeD)
  from assms(2) have ne: "?ip \<noteq> []" by auto
  from assms(2) have len: "length ?fp = prec" by simp
  have "?ip @ ?fp = ds" by simp
  with assms(3) have pd: "parse_digits 0 (?ip @ ?fp) = Some n" by simp
  from False ip ne len pd show ?thesis
    by (simp add: parse_unsigned_def takeWhile_digits dropWhile_digits del: append_take_drop_id)
qed

lemma hd_take_digit:
  assumes "list_all is_digit ds" and "prec < length ds"
  shows "\<exists>c cs. take (length ds - prec) ds = c # cs \<and> is_digit c"
proof -
  from assms(2) obtain c cs where t: "take (length ds - prec) ds = c # cs"
    by (cases "take (length ds - prec) ds") auto
  then have "c \<in> set (take (length ds - prec) ds)" by simp
  then have "c \<in> set ds" by (rule in_set_takeD)
  with assms(1) have "is_digit c" by (simp add: list_all_iff)
  with t show ?thesis by blast
qed

lemma ParseFloat_Sprintf_f:
  "ParseFloat (Sprintf_f prec x) = Some (round_to_prec prec x)"
proof -
  let ?n = "round_half_even (\<bar>x\<bar> * 10 ^ prec)"
  let ?ds = "padded_digits prec ?n"
  let ?body = "take (length ?ds - prec) ?ds @
     (if prec = 0 then [] else CHR ''.'' # drop (length ?ds - prec) ?ds)"
  have body: "parse_unsigned ?body = Some (of_nat ?n / 10 ^ prec)"
    by (rule parse_unsigned_fixed [OF padded_digits_all padded_digits_length
          parse_digits_padded_digits])
  from hd_take_digit [OF padded_digits_all padded_digits_length, of prec ?n]
  obtain c cs where c: "take (length ?ds - prec) ?ds = c # cs" "is_digit c" by blast
  from c(2) have nc: "c \<noteq> CHR ''-''" "c \<noteq> CHR ''+''"
    using is_digit_not_special by blast+
  show ?thesis
  proof (cases "x < 0")
    case True
    then have "Sprintf_f prec x = CHR ''-'' # ?body"
      by (simp add: Sprintf_f_shape)
    with body True show ?thesis
      by (simp add: ParseFloat_def round_to_prec_def)
  next
    case False
    then have s: "Sprintf_f prec x = ?body"
      by (simp add: Sprintf_f_shape)
    have "ParseFloat ?body = parse_unsigned ?body"
      using c nc by (simp add: ParseFloat_def)
    with s body False show ?thesis
      by (simp add: round_to_prec_def)
  qed
qed

section \<open>Rounding and truncation\<close>





lemma trunc_small: "0 \<le> v \<Longrightarrow> v < 1 \<Longrightarrow> trunc v = 0"
  by (simp add: trunc_def floor_eq_iff)



lemma int64_of_float_small: "0 \<le> v \<Longrightarrow> v < 1 \<Longrightarrow> int64_of_float v = 0"
  by (simp add: int64_of_float_def trunc_small in_int64_def)


section \<open>The requests an operation sends\<close>

lemma created_orders_append:
  "created_orders (a @ b) = created_orders a @ created_orders b"
  by (induction a rule: created_orders.induct) simp_all

lemma created_triggered_orders_append:
  "created_triggered_orders (a @ b) = created_triggered_orders a @ created_triggered_orders b"
  by (induction a rule: created_triggered_orders.induct) simp_all

lemma cancelled_triggered_ids_append:
  "cancelled_triggered_ids (a @ b) = cancelled_triggered_ids a @ cancelled_triggered_ids b"
  by (induction a rule: cancelled_triggered_ids.induct) simp_all

lemma quiet_Nil: "quiet []"
  by (simp add: quiet_def)

lemma quiet_append: "quiet a \<Longrightarrow> quiet b \<Longrightarrow> quiet (a @ b)"
  by (simp add: quiet_def created_orders_append created_triggered_orders_append
      cancelled_triggered_ids_append)

lemma quiet_no_orders: "quiet cs \<Longrightarrow> no_orders cs"
  by (simp add: quiet_def no_orders_def)

lemma no_orders_Nil: "no_orders []"
  by (simp add: no_orders_def)

lemma no_orders_append: "no_orders a \<Longrightarrow> no_orders b \<Longrightarrow> no_orders (a @ b)"
  by (simp add: no_orders_def created_orders_append created_triggered_orders_append)

lemma calls_send: "calls (send c t) = calls t @ [c]"
  by (simp add: send_def)

lemma sent_by_append: "calls t' = calls t @ cs \<Longrightarrow> sent_by t t' = cs"
  by (simp add: sent_by_def)

lemma getSymbolInfo_calls:
  "\<exists>cs. calls (snd (getSymbolInfo ex now symbol t)) = calls t @ cs \<and> quiet cs"
proof -
  have "calls (snd (getSymbolInfo ex now symbol t)) = calls t \<or>
        calls (snd (getSymbolInfo ex now symbol t)) = calls t @ [Call_ListFuturesContracts]"
    by (auto simp: getSymbolInfo_def Let_def send_def split: option.splits sum.splits)
  moreover have "quiet [Call_ListFuturesContracts]" by (simp add: quiet_def)
  ultimately show ?thesis using quiet_Nil by (metis append_Nil2)
qed

lemma getSymbolInfo_again:
  assumes "getSymbolInfo ex now symbol t = (Inr info, t1)"
  shows "getSymbolInfo ex now symbol t1 = (Inr info, t1)"
proof -
  have z: "Since now now < 5 * Minute"
    by (simp add: Since_def Minute_def Second_def)
  from assms show ?thesis
    by (auto simp: getSymbolInfo_def Let_def send_def z split: option.splits sum.splits if_splits)
qed

lemma getSymbolInfo_unresolved_calls:
  assumes "fst (getSymbolInfo ex now symbol t) = Inl err"
  shows "calls (snd (getSymbolInfo ex now symbol t)) = calls t @ [Call_ListFuturesContracts]"
  using assms
  by (auto simp: getSymbolInfo_def Let_def send_def split: option.splits sum.splits if_splits)

lemma GetMarketPrice_calls:
  "\<exists>cs. calls (snd (GetMarketPrice ex symbol t)) = calls t @ cs \<and> quiet cs"
proof -
  have "\<exists>c. calls (snd (GetMarketPrice ex symbol t)) = calls t @ [Call_ListFuturesTickers c]"
    by (auto simp: GetMarketPrice_def Let_def send_def split: option.splits sum.splits list.splits)
  then obtain c where "calls (snd (GetMarketPrice ex symbol t)) = calls t @ [Call_ListFuturesTickers c]"
    by blast
  moreover have "quiet [Call_ListFuturesTickers c]" by (simp add: quiet_def)
  ultimately show ?thesis by blast
qed



section \<open>The quantity conversion engine, case by case\<close>

lemma convert_resolved:
  assumes "getSymbolInfo ex now symbol t = (Inr info, t1)"
  shows "convertCoinQuantityToContractSize ex now symbol q t1 =
           (Inr (q / quantoMultiplier info), t1)"
  using getSymbolInfo_again [OF assms]
  by (simp add: convertCoinQuantityToContractSize_def)


lemma FormatQuantity_unresolved:
  assumes "getSymbolInfo ex now symbol t = (Inl err, t1)"
  shows "FormatQuantity ex now symbol q t = (Inr (Sprintf_f 3 q), t1)"
  using assms by (simp add: FormatQuantity_def)

lemma FormatQuantity_resolved:
  assumes "getSymbolInfo ex now symbol t = (Inr info, t1)"
  shows "FormatQuantity ex now symbol q t =
     (if OrderSizeMin info > 0 \<and> q / quantoMultiplier info < of_int (OrderSizeMin info)
      then below_minimum ex symbol q (q / quantoMultiplier info) (of_int (OrderSizeMin info)) info t1
      else if round_to_prec (precision_of info) (q / quantoMultiplier info) \<le> 0
      then zero_after_rounding ex symbol q (q / quantoMultiplier info) (precision_of info) info t1
      else (Inr (Sprintf_f (precision_of info) (q / quantoMultiplier info)), t1))"
  using assms convert_resolved [OF assms, of q]
  by (simp add: FormatQuantity_def Let_def ParseFloat_Sprintf_f)





lemma below_minimum_calls:
  "\<exists>cs. calls (snd (below_minimum ex symbol q c m info t)) = calls t @ cs \<and> quiet cs"
proof -
  have "snd (below_minimum ex symbol q c m info t) = snd (GetMarketPrice ex symbol t)"
    by (simp add: below_minimum_def Let_def split: prod.splits sum.splits)
  then show ?thesis using GetMarketPrice_calls by simp
qed

lemma zero_after_rounding_calls:
  "\<exists>cs. calls (snd (zero_after_rounding ex symbol q c p info t)) = calls t @ cs \<and> quiet cs"
proof -
  have "snd (zero_after_rounding ex symbol q c p info t) = snd (GetMarketPrice ex symbol t)"
    by (simp add: zero_after_rounding_def Let_def split: prod.splits sum.splits)
  then show ?thesis using GetMarketPrice_calls by simp
qed

lemma FormatQuantity_calls:
  "\<exists>cs. calls (snd (FormatQuantity ex now symbol q t)) = calls t @ cs \<and> quiet cs"
proof -
  obtain r t1 where g: "getSymbolInfo ex now symbol t = (r, t1)"
    by (cases "getSymbolInfo ex now symbol t") auto
  from getSymbolInfo_calls [of ex now symbol t] g
  obtain a where a: "calls t1 = calls t @ a" "quiet a" by auto
  show ?thesis
  proof (cases r)
    case (Inl err)
    with g a show ?thesis by (auto simp: FormatQuantity_unresolved)
  next
    case (Inr info)
    with g have g': "getSymbolInfo ex now symbol t = (Inr info, t1)" by simp
    from below_minimum_calls
      [of ex symbol q "q / quantoMultiplier info" "of_int (OrderSizeMin info)" info t1] obtain b where
      b: "calls (snd (below_minimum ex symbol q (q / quantoMultiplier info)
            (of_int (OrderSizeMin info)) info t1)) = calls t1 @ b" "quiet b" by blast
    from zero_after_rounding_calls
      [of ex symbol q "q / quantoMultiplier info" "precision_of info" info t1] obtain c where
      c: "calls (snd (zero_after_rounding ex symbol q (q / quantoMultiplier info)
            (precision_of info) info t1)) = calls t1 @ c" "quiet c" by blast
    have "calls (snd (FormatQuantity ex now symbol q t)) = calls t @ (a @ b) \<or>
          calls (snd (FormatQuantity ex now symbol q t)) = calls t @ (a @ c) \<or>
          calls (snd (FormatQuantity ex now symbol q t)) = calls t @ a"
      using a(1) b(1) c(1) by (simp add: FormatQuantity_resolved [OF g'])
    with a(2) b(2) c(2) show ?thesis using quiet_append by blast
  qed
qed


section \<open>The balance cache\<close>

lemma GetBalance_cacheDuration:
  "cacheDuration (snd (GetBalance ex now t)) = cacheDuration t"
  by (simp add: GetBalance_def Let_def send_def split: option.splits sum.splits)

text \<open>
  C8. On a trader whose time-to-live is the one the constructor sets (15 seconds):
  when a balance is cached and its age is below the time-to-live, \<open>GetBalance\<close> returns
  it and leaves the trader as it is, the requests sent included; when no balance is
  cached or its age has reached the time-to-live, \<open>GetBalance\<close> sends one request for the
  account, and the balance built from the answer is returned and cached with the time
  \<open>now\<close> (a failed request returns the error and leaves the cache as it was).
\<close>

theorem C8_balance_cache:
  assumes "cacheDuration t = cacheDuration NewGateIOFuturesTrader"
  shows "(\<forall>b. cachedBalance t = Some b \<and> Since now (balanceCacheTime t) < 15 * Second \<longrightarrow>
            GetBalance ex now t = (Inr b, t)) \<and>
         (cachedBalance t = None \<or> 15 * Second \<le> Since now (balanceCacheTime t) \<longrightarrow>
            calls (snd (GetBalance ex now t)) = calls t @ [Call_ListFuturesAccounts] \<and>
            (\<forall>account. ListFuturesAccounts ex = Inr account \<longrightarrow>
               fst (GetBalance ex now t) = Inr (balance_of_account account) \<and>
               cachedBalance (snd (GetBalance ex now t)) = Some (balance_of_account account) \<and>
               balanceCacheTime (snd (GetBalance ex now t)) = now) \<and>
            (\<forall>err. ListFuturesAccounts ex = Inl err \<longrightarrow>
               fst (GetBalance ex now t) = Inl (GetAccountFailed err) \<and>
               cachedBalance (snd (GetBalance ex now t)) = cachedBalance t \<and>
               balanceCacheTime (snd (GetBalance ex now t)) = balanceCacheTime t))"
  using assms
  by (auto simp: GetBalance_def NewGateIOFuturesTrader_def send_def
      Let_def split: option.splits sum.splits)

theorem C8_balance_cache_witness:
  "cacheDuration NewGateIOFuturesTrader = 15 * Second \<and>
   calls (snd (GetBalance (example_exchange (Inr []) [] []) (100 * Second) NewGateIOFuturesTrader)) =
     [Call_ListFuturesAccounts] \<and>
   GetBalance (example_exchange (Inr []) [] []) (110 * Second)
     (snd (GetBalance (example_exchange (Inr []) [] []) (100 * Second) NewGateIOFuturesTrader)) =
     (Inr (balance_of_account example_account),
      snd (GetBalance (example_exchange (Inr []) [] []) (100 * Second) NewGateIOFuturesTrader)) \<and>
   calls (snd (GetBalance (example_exchange (Inr []) [] []) (115 * Second)
     (snd (GetBalance (example_exchange (Inr []) [] []) (100 * Second) NewGateIOFuturesTrader)))) =
     [Call_ListFuturesAccounts, Call_ListFuturesAccounts]"
proof -
  let ?ex = "example_exchange (Inr []) [] []"
  let ?t0 = "NewGateIOFuturesTrader"
  let ?t1 = "snd (GetBalance ?ex (100 * Second) ?t0)"
  have acc: "ListFuturesAccounts ?ex = Inr example_account"
    by (simp add: example_exchange_def)
  have d: "cacheDuration ?t0 = 15 * Second"
    by (simp add: NewGateIOFuturesTrader_def)
  have none: "cachedBalance ?t0 = None" "calls ?t0 = []"
    by (simp_all add: NewGateIOFuturesTrader_def)
  from C8_balance_cache [of ?t0 "100 * Second" ?ex] none acc
  have first: "calls ?t1 = [Call_ListFuturesAccounts]"
    "cachedBalance ?t1 = Some (balance_of_account example_account)"
    "balanceCacheTime ?t1 = 100 * Second"
    by auto
  have d1: "cacheDuration ?t1 = cacheDuration ?t0"
    by (rule GetBalance_cacheDuration)
  have fresh: "Since (110 * Second) (balanceCacheTime ?t1) < 15 * Second"
    by (simp only: first) (simp add: Since_def Second_def)
  have stale: "15 * Second \<le> Since (115 * Second) (balanceCacheTime ?t1)"
    by (simp only: first) (simp add: Since_def Second_def)
  from C8_balance_cache [OF d1, of "110 * Second" ?ex] first(2) fresh
  have second: "GetBalance ?ex (110 * Second) ?t1 = (Inr (balance_of_account example_account), ?t1)"
    by blast
  from C8_balance_cache [OF d1, of "115 * Second" ?ex] stale first(1)
  have third: "calls (snd (GetBalance ?ex (115 * Second) ?t1)) =
      [Call_ListFuturesAccounts, Call_ListFuturesAccounts]"
    by simp
  from d first(1) second third show ?thesis by blast
qed

section \<open>The fallback without a contract specification\<close>






lemma normalize_BTCUSDT: "normalizeSymbolForGateIO ''BTCUSDT'' = ''BTC_USDT''"
  by (simp add: normalizeSymbolForGateIO_def Contains_underscore suffixes_def
      HasSuffix_def TrimSuffix_def)


lemma example_getSymbolInfo_failed:
  "getSymbolInfo (example_exchange (Inl e) ps os) now ''BTCUSDT'' NewGateIOFuturesTrader =
   (Inl (GetSymbolInfoFailed e), NewGateIOFuturesTrader\<lparr>calls := [Call_ListFuturesContracts]\<rparr>)"
  by (simp add: getSymbolInfo_def normalize_BTCUSDT NewGateIOFuturesTrader_def
      example_exchange_def send_def Let_def)

lemma Sprintf_f_three_decimals:
  "\<exists>ip fp. Sprintf_f 3 x = (if x < 0 then ''-'' else []) @ ip @ CHR ''.'' # fp \<and>
     ip \<noteq> [] \<and> list_all is_digit ip \<and> length fp = 3 \<and> list_all is_digit fp"
proof -
  let ?ds = "padded_digits 3 (round_half_even (\<bar>x\<bar> * 10 ^ 3))"
  have all: "list_all is_digit ?ds" by (rule padded_digits_all)
  have len: "3 < length ?ds" by (rule padded_digits_length)
  have "Sprintf_f 3 x = (if x < 0 then ''-'' else []) @ take (length ?ds - 3) ?ds @
      CHR ''.'' # drop (length ?ds - 3) ?ds"
    by (simp add: Sprintf_f_shape)
  moreover from len have "take (length ?ds - 3) ?ds \<noteq> []" by auto
  moreover from all have "list_all is_digit (take (length ?ds - 3) ?ds)"
    by (auto simp: list_all_iff dest: in_set_takeD)
  moreover from all have "list_all is_digit (drop (length ?ds - 3) ?ds)"
    by (auto simp: list_all_iff dest: in_set_dropD)
  moreover from len have "length (drop (length ?ds - 3) ?ds) = 3" by simp
  ultimately show ?thesis by blast
qed

text \<open>
  C9. When the specification of the symbol cannot be resolved (\<open>getSymbolInfo\<close> returns an
  error), \<open>FormatQuantity\<close> returns, for every quantity and without an error, the
  quantity itself printed with exactly three decimals: a sign when negative, integer
  digits, a point and three digits, denoting the quantity rounded to three decimals.
  No multiplier enters the result, a quantity that is zero or too small is not
  rejected, and the only request sent is the failed one for the contracts.
\<close>

theorem C9_unresolved_spec_fallback:
  assumes "fst (getSymbolInfo ex now symbol t) = Inl err"
  shows "fst (FormatQuantity ex now symbol quantity t) = Inr (Sprintf_f 3 quantity) \<and>
         ParseFloat (Sprintf_f 3 quantity) = Some (round_to_prec 3 quantity) \<and>
         (\<exists>ip fp. Sprintf_f 3 quantity =
              (if quantity < 0 then ''-'' else []) @ ip @ CHR ''.'' # fp \<and>
            ip \<noteq> [] \<and> list_all is_digit ip \<and> length fp = 3 \<and> list_all is_digit fp) \<and>
         sent_by t (snd (FormatQuantity ex now symbol quantity t)) = [Call_ListFuturesContracts]"
proof -
  obtain t1 where g: "getSymbolInfo ex now symbol t = (Inl err, t1)"
    using assms by (cases "getSymbolInfo ex now symbol t") auto
  then have f: "FormatQuantity ex now symbol quantity t = (Inr (Sprintf_f 3 quantity), t1)"
    by (rule FormatQuantity_unresolved)
  from getSymbolInfo_unresolved_calls [OF assms] g
  have "calls t1 = calls t @ [Call_ListFuturesContracts]" by simp
  then have "sent_by t t1 = [Call_ListFuturesContracts]" by (rule sent_by_append)
  with f show ?thesis
    using ParseFloat_Sprintf_f [of 3 quantity] Sprintf_f_three_decimals [of quantity]
    by simp
qed

lemma Sprintf_f_minus_half: "Sprintf_f 3 (- 1 / 2) = ''-0.500''"
  by code_simp

lemma Sprintf_f_zero: "Sprintf_f 3 0 = ''0.000''"
  by code_simp

theorem C9_unresolved_spec_fallback_witness:
  "fst (getSymbolInfo (example_exchange (Inl (ApiError None ''timeout'')) [] []) 0 ''BTCUSDT''
     NewGateIOFuturesTrader) = Inl (GetSymbolInfoFailed (ApiError None ''timeout'')) \<and>
   fst (FormatQuantity (example_exchange (Inl (ApiError None ''timeout'')) [] []) 0 ''BTCUSDT''
     (- 1 / 2) NewGateIOFuturesTrader) = Inr ''-0.500'' \<and>
   fst (FormatQuantity (example_exchange (Inl (ApiError None ''timeout'')) [] []) 0 ''BTCUSDT''
     0 NewGateIOFuturesTrader) = Inr ''0.000''"
proof -
  let ?ex = "example_exchange (Inl (ApiError None ''timeout'')) [] []"
  have h: "fst (getSymbolInfo ?ex 0 ''BTCUSDT'' NewGateIOFuturesTrader) =
      Inl (GetSymbolInfoFailed (ApiError None ''timeout''))"
    by (simp add: example_getSymbolInfo_failed)
  from C9_unresolved_spec_fallback [OF h, of "- 1 / 2"] C9_unresolved_spec_fallback [OF h, of 0] h
  show ?thesis
    by (simp only: Sprintf_f_minus_half Sprintf_f_zero)
qed

section \<open>The minimum size gate\<close>










section \<open>The precision floor\<close>







section \<open>The trigger order classifier in the fallback\<close>




lemma quiet_single_list: "quiet [Call_ListPriceTriggeredOrders opts]"
  by (simp add: quiet_def)





lemma ParseFloat_100: "ParseFloat ''100'' = Some 100"
  by (simp add: ParseFloat_def parse_unsigned_def digit_val_def digit_table_def)


lemma example_GetMarketPrice:
  "GetMarketPrice (example_exchange cs ps os) ''BTCUSDT'' t =
     (Inr 100, send (Call_ListFuturesTickers (Some ''BTC_USDT'')) t)"
  by (simp add: GetMarketPrice_def normalize_BTCUSDT example_exchange_def ParseFloat_100 Let_def)

lemma example_trigger_opts: "trigger_opts ''BTCUSDT'' = Some ''BTC_USDT''"
  by (simp add: trigger_opts_def normalize_BTCUSDT)















section \<open>The orders an operation creates\<close>

lemma cancel_triggered_loop_calls:
  "\<exists>cs. calls (cancel_triggered_loop ex orders t) = calls t @ cs \<and> no_orders cs"
proof (induction orders arbitrary: t)
  case Nil
  then show ?case using no_orders_Nil by simp
next
  case (Cons order rest)
  show ?case
  proof (cases "pto_Id order > 0")
    case True
    let ?c = "Call_CancelPriceTriggeredOrder (FormatInt (pto_Id order))"
    from Cons [of "send ?c t"] obtain cs where
      cs: "calls (cancel_triggered_loop ex rest (send ?c t)) = calls (send ?c t) @ cs" "no_orders cs"
      by blast
    have "no_orders [?c]" by (simp add: no_orders_def)
    from this cs(2) have "no_orders ([?c] @ cs)" by (rule no_orders_append)
    moreover from True cs(1) have "calls (cancel_triggered_loop ex (order # rest) t) =
        calls t @ ([?c] @ cs)" by (simp add: calls_send)
    ultimately show ?thesis by blast
  next
    case False
    with Cons [of t] show ?thesis by simp
  qed
qed

lemma CancelAllOrders_calls:
  "\<exists>cs. calls (snd (CancelAllOrders ex symbol t)) = calls t @ cs \<and> no_orders cs"
proof -
  let ?g = "normalizeSymbolForGateIO symbol"
  let ?opts = "if ?g \<noteq> [] then Some ?g else None"
  let ?t2 = "send (Call_ListPriceTriggeredOrders ?opts) (send (Call_CancelFuturesOrders ?g) t)"
  have two: "calls ?t2 = calls t @ [Call_CancelFuturesOrders ?g, Call_ListPriceTriggeredOrders ?opts]"
    by (simp add: calls_send)
  have n2: "no_orders [Call_CancelFuturesOrders ?g, Call_ListPriceTriggeredOrders ?opts]"
    by (simp add: no_orders_def)
  show ?thesis
  proof (cases "ListPriceTriggeredOrders ex ?opts")
    case (Inl err)
    then have "snd (CancelAllOrders ex symbol t) = ?t2"
      by (simp add: CancelAllOrders_def Let_def)
    with two n2 show ?thesis by metis
  next
    case (Inr priceOrders)
    then have r: "snd (CancelAllOrders ex symbol t) = cancel_triggered_loop ex priceOrders ?t2"
      by (simp add: CancelAllOrders_def Let_def)
    from cancel_triggered_loop_calls [of ex priceOrders ?t2] obtain cs where
      cs: "calls (cancel_triggered_loop ex priceOrders ?t2) = calls ?t2 @ cs" "no_orders cs"
      by blast
    from r cs(1) two have "calls (snd (CancelAllOrders ex symbol t)) =
        calls t @ ([Call_CancelFuturesOrders ?g, Call_ListPriceTriggeredOrders ?opts] @ cs)"
      by simp
    moreover from n2 cs(2) have
      "no_orders ([Call_CancelFuturesOrders ?g, Call_ListPriceTriggeredOrders ?opts] @ cs)"
      by (rule no_orders_append)
    ultimately show ?thesis by blast
  qed
qed

lemma SetLeverage_calls:
  "\<exists>cs. calls (snd (SetLeverage ex symbol lev t)) = calls t @ cs \<and> no_orders cs"
proof -
  let ?c = "Call_UpdatePositionLeverage (normalizeSymbolForGateIO symbol) (FormatInt lev)"
  have "calls (snd (SetLeverage ex symbol lev t)) = calls t @ [] \<or>
        calls (snd (SetLeverage ex symbol lev t)) = calls t @ [?c]"
    by (simp add: SetLeverage_def Let_def calls_send split: option.splits)
  moreover have "no_orders [?c]" by (simp add: no_orders_def)
  ultimately show ?thesis using no_orders_Nil by blast
qed

lemma CheckMinNotional_calls:
  "\<exists>cs. calls (snd (CheckMinNotional ex symbol q t)) = calls t @ cs \<and> no_orders cs"
proof -
  have "snd (CheckMinNotional ex symbol q t) = snd (GetMarketPrice ex symbol t)"
    by (simp add: CheckMinNotional_def Let_def split: prod.splits sum.splits)
  with GetMarketPrice_calls [of ex symbol t] show ?thesis
    using quiet_no_orders by auto
qed

lemma FormatQuantity_no_orders:
  "\<exists>cs. calls (snd (FormatQuantity ex now symbol q t)) = calls t @ cs \<and> no_orders cs"
  using FormatQuantity_calls [of ex now symbol q t] quiet_no_orders by blast


lemma sent_no_orders:
  assumes "calls t' = calls t @ cs" and "no_orders cs"
  shows "created_orders (sent_by t t') = [] \<and> created_triggered_orders (sent_by t t') = []"
  using assms by (simp add: sent_by_def no_orders_def)

lemma sent_one_order:
  assumes "calls t' = calls t @ cs @ [Call_CreateFuturesOrder req] @ ds"
    and "no_orders cs" and "no_orders ds"
  shows "created_orders (sent_by t t') = [req] \<and> created_triggered_orders (sent_by t t') = []"
  using assms
  by (simp add: sent_by_def no_orders_def created_orders_append created_triggered_orders_append)


lemma OpenLong_created:
  "created_orders (sent_by t (snd (OpenLong ex now symbol q lev t))) =
     (case fst (SetLeverage ex symbol lev (snd (CancelAllOrders ex symbol t))) of
        Some err \<Rightarrow> []
      | None \<Rightarrow>
          (case fst (FormatQuantity ex now symbol q (open_prestate ex symbol lev t)) of
             Inl err \<Rightarrow> []
           | Inr str \<Rightarrow>
               (case ParseFloat str of
                  None \<Rightarrow> []
                | Some v \<Rightarrow>
                    (case fst (CheckMinNotional ex symbol q
                            (snd (FormatQuantity ex now symbol q (open_prestate ex symbol lev t)))) of
                       Some err \<Rightarrow> []
                     | None \<Rightarrow>
                         [market_order (normalizeSymbolForGateIO symbol) (int64_of_float v)
                            False ''t-gateio-futures''])))) \<and>
   created_triggered_orders (sent_by t (snd (OpenLong ex now symbol q lev t))) = []"
proof -
  let ?R = "snd (OpenLong ex now symbol q lev t)"
  obtain ce t1 where c1: "CancelAllOrders ex symbol t = (ce, t1)"
    by (cases "CancelAllOrders ex symbol t") auto
  obtain e2 t2 where c2: "SetLeverage ex symbol lev t1 = (e2, t2)"
    by (cases "SetLeverage ex symbol lev t1") auto
  obtain r3 t3 where c3: "FormatQuantity ex now symbol q t2 = (r3, t3)"
    by (cases "FormatQuantity ex now symbol q t2") auto
  obtain e4 t4 where c4: "CheckMinNotional ex symbol q t3 = (e4, t4)"
    by (cases "CheckMinNotional ex symbol q t3") auto
  from CancelAllOrders_calls [of ex symbol t] c1
  obtain a1 where a1: "calls t1 = calls t @ a1" "no_orders a1" by auto
  from SetLeverage_calls [of ex symbol lev t1] c2
  obtain a2 where a2: "calls t2 = calls t1 @ a2" "no_orders a2" by auto
  from FormatQuantity_no_orders [of ex now symbol q t2] c3
  obtain a3 where a3: "calls t3 = calls t2 @ a3" "no_orders a3" by auto
  from CheckMinNotional_calls [of ex symbol q t3] c4
  obtain a4 where a4: "calls t4 = calls t3 @ a4" "no_orders a4" by auto
  have pre: "open_prestate ex symbol lev t = t2"
    by (simp add: open_prestate_def c1 c2)
  have n2: "calls t2 = calls t @ (a1 @ a2)" "no_orders (a1 @ a2)"
    using a1 a2 by (simp_all add: no_orders_append)
  have n3: "calls t3 = calls t @ (a1 @ a2 @ a3)" "no_orders (a1 @ a2 @ a3)"
    using a1 a2 a3 by (simp_all add: no_orders_append)
  have n4: "calls t4 = calls t @ (a1 @ a2 @ a3 @ a4)" "no_orders (a1 @ a2 @ a3 @ a4)"
    using a1 a2 a3 a4 by (simp_all add: no_orders_append)
  show ?thesis
  proof (cases e2)
    case (Some err)
    then have "?R = t2" by (simp add: OpenLong_def c1 c2)
    with sent_no_orders [OF n2] Some show ?thesis by (simp add: c1 c2)
  next
    case None
    note e2 = None
    show ?thesis
    proof (cases r3)
      case (Inl err)
      with e2 have "?R = t3" by (simp add: OpenLong_def c1 c2 c3)
      with sent_no_orders [OF n3] e2 Inl show ?thesis by (simp add: c1 c2 c3 pre)
    next
      case (Inr str)
      note r3 = Inr
      show ?thesis
      proof (cases "ParseFloat str")
        case None
        with e2 r3 have "?R = t3" by (simp add: OpenLong_def c1 c2 c3)
        with sent_no_orders [OF n3] e2 r3 None show ?thesis by (simp add: c1 c2 c3 pre)
      next
        case (Some v)
        note pf = Some
        show ?thesis
        proof (cases e4)
          case (Some err)
          with e2 r3 pf have "?R = t4" by (simp add: OpenLong_def c1 c2 c3 c4)
          with sent_no_orders [OF n4] e2 r3 pf Some show ?thesis
            by (simp add: c1 c2 c3 c4 pre)
        next
          case None
          let ?req = "market_order (normalizeSymbolForGateIO symbol) (int64_of_float v) False
              ''t-gateio-futures''"
          from None e2 r3 pf have "?R = send (Call_CreateFuturesOrder ?req) t4"
            by (simp add: OpenLong_def c1 c2 c3 c4 Let_def split: sum.splits)
          then have "calls ?R = calls t @ (a1 @ a2 @ a3 @ a4) @ [Call_CreateFuturesOrder ?req] @ []"
            using n4(1) by (simp add: calls_send)
          from sent_one_order [OF this n4(2) no_orders_Nil] e2 r3 pf None show ?thesis
            by (simp add: c1 c2 c3 c4 pre)
        qed
      qed
    qed
  qed
qed






section \<open>Order sizes are truncated contract counts\<close>














lemma FormatInt_10: "FormatInt 10 = ''10''"
  by (simp add: FormatInt_def FormatUint.simps digit_char_def)

lemma example_CancelAllOrders:
  "CancelAllOrders (example_exchange cs ps []) ''BTCUSDT'' t =
     (None, t\<lparr>calls := calls t @ [Call_CancelFuturesOrders ''BTC_USDT'',
        Call_ListPriceTriggeredOrders (Some ''BTC_USDT'')]\<rparr>)"
  by (simp add: CancelAllOrders_def normalize_BTCUSDT example_exchange_def send_def Let_def)

lemma example_SetLeverage:
  "SetLeverage (example_exchange cs ps os) ''BTCUSDT'' 10 t =
     (None, t\<lparr>calls := calls t @ [Call_UpdatePositionLeverage ''BTC_USDT'' ''10'']\<rparr>)"
  by (simp add: SetLeverage_def normalize_BTCUSDT example_exchange_def send_def Let_def
      FormatInt_10)

lemma example_open_prestate:
  "open_prestate (example_exchange cs ps []) ''BTCUSDT'' 10 NewGateIOFuturesTrader =
     NewGateIOFuturesTrader\<lparr>calls := [Call_CancelFuturesOrders ''BTC_USDT'',
        Call_ListPriceTriggeredOrders (Some ''BTC_USDT''),
        Call_UpdatePositionLeverage ''BTC_USDT'' ''10'']\<rparr>"
  by (simp add: open_prestate_def example_CancelAllOrders example_SetLeverage
      NewGateIOFuturesTrader_def)

lemma example_CheckMinNotional_half:
  "fst (CheckMinNotional (example_exchange cs ps os) ''BTCUSDT'' (1 / 2) t) = None"
  by (simp add: CheckMinNotional_def example_GetMarketPrice GetMinNotional_def Let_def)

lemma Sprintf_f_half: "Sprintf_f 3 (1 / 2) = ''0.500''"
  by code_simp

lemma round_half: "round_to_prec 3 (1 / 2) = 1 / 2"
  by code_simp

lemma ParseFloat_half: "ParseFloat ''0.500'' = Some (1 / 2)"
  using ParseFloat_Sprintf_f [of 3 "1 / 2"] by (simp only: Sprintf_f_half round_half)



lemma example_FormatQuantity_unresolved_half:
  assumes "symbolInfoCache t = Map.empty"
  shows "fst (FormatQuantity (example_exchange (Inl e) ps os) now ''BTCUSDT'' (1 / 2) t) =
     Inr ''0.500''"
proof -
  have "fst (getSymbolInfo (example_exchange (Inl e) ps os) now ''BTCUSDT'' t) =
      Inl (GetSymbolInfoFailed e)"
    using assms
    by (simp add: getSymbolInfo_def normalize_BTCUSDT example_exchange_def send_def Let_def)
  then obtain t1 where "getSymbolInfo (example_exchange (Inl e) ps os) now ''BTCUSDT'' t =
      (Inl (GetSymbolInfoFailed e), t1)"
    by (cases "getSymbolInfo (example_exchange (Inl e) ps os) now ''BTCUSDT'' t") auto
  from FormatQuantity_unresolved [OF this, of "1 / 2"] show ?thesis
    by (simp add: Sprintf_f_half)
qed

lemma int64_of_float_half: "int64_of_float (1 / 2) = 0"
  by (simp add: int64_of_float_small)

lemma example_OpenLong_half:
  assumes "fst (FormatQuantity (example_exchange cs ps []) 0 ''BTCUSDT'' (1 / 2)
     (open_prestate (example_exchange cs ps []) ''BTCUSDT'' 10 NewGateIOFuturesTrader)) =
     Inr ''0.500''"
  shows "created_orders (sent_by NewGateIOFuturesTrader
     (snd (OpenLong (example_exchange cs ps []) 0 ''BTCUSDT'' (1 / 2) 10 NewGateIOFuturesTrader))) =
     [market_order ''BTC_USDT'' 0 False ''t-gateio-futures'']"
  using OpenLong_created [of NewGateIOFuturesTrader "example_exchange cs ps []" 0 "''BTCUSDT''"
      "1 / 2" 10, THEN conjunct1]
  by (simp add: assms example_CancelAllOrders example_SetLeverage ParseFloat_half
      example_CheckMinNotional_half normalize_BTCUSDT int64_of_float_half)



text \<open>
  C2 at an input on which it fails: the listing of the contracts fails, so that
  \<open>FormatQuantity\<close> prints the coin quantity 0.5 itself as \<open>0.500\<close>; the notional value
  50 passes the minimum of 10; and the order that \<open>OpenLong\<close> sends, and that the
  exchange accepts, has the size 0, which is not positive.
\<close>

theorem C2_open_long_size_zero:
  "fst (FormatQuantity (example_exchange (Inl (ApiError None ''timeout'')) [] []) 0 ''BTCUSDT''
     (1 / 2)
     (open_prestate (example_exchange (Inl (ApiError None ''timeout'')) [] []) ''BTCUSDT'' 10
        NewGateIOFuturesTrader)) = Inr ''0.500'' \<and>
   fst (CheckMinNotional (example_exchange (Inl (ApiError None ''timeout'')) [] []) ''BTCUSDT''
     (1 / 2)
     (snd (FormatQuantity (example_exchange (Inl (ApiError None ''timeout'')) [] []) 0 ''BTCUSDT''
        (1 / 2)
        (open_prestate (example_exchange (Inl (ApiError None ''timeout'')) [] []) ''BTCUSDT'' 10
           NewGateIOFuturesTrader)))) = None \<and>
   created_orders (sent_by NewGateIOFuturesTrader
     (snd (OpenLong (example_exchange (Inl (ApiError None ''timeout'')) [] []) 0 ''BTCUSDT''
        (1 / 2) 10 NewGateIOFuturesTrader))) =
     [market_order ''BTC_USDT'' 0 False ''t-gateio-futures''] \<and>
   ord_Size (market_order ''BTC_USDT'' 0 False ''t-gateio-futures'') = 0"
proof -
  let ?ex = "example_exchange (Inl (ApiError None ''timeout'')) [] []"
  let ?t0 = "open_prestate ?ex ''BTCUSDT'' 10 NewGateIOFuturesTrader"
  have c: "symbolInfoCache ?t0 = Map.empty"
    by (simp only: example_open_prestate) (simp add: NewGateIOFuturesTrader_def)
  have f: "fst (FormatQuantity ?ex 0 ''BTCUSDT'' (1 / 2) ?t0) = Inr ''0.500''"
    by (rule example_FormatQuantity_unresolved_half [OF c])
  have n: "fst (CheckMinNotional ?ex ''BTCUSDT'' (1 / 2)
      (snd (FormatQuantity ?ex 0 ''BTCUSDT'' (1 / 2) ?t0))) = None"
    by (rule example_CheckMinNotional_half)
  have o: "created_orders (sent_by NewGateIOFuturesTrader
      (snd (OpenLong ?ex 0 ''BTCUSDT'' (1 / 2) 10 NewGateIOFuturesTrader))) =
      [market_order ''BTC_USDT'' 0 False ''t-gateio-futures'']"
    by (rule example_OpenLong_half [OF f])
  have z: "ord_Size (market_order ''BTC_USDT'' 0 False ''t-gateio-futures'') = 0"
    by (simp add: market_order_def)
  from f n o z show ?thesis by blast
qed

section \<open>Closing a whole position\<close>
















end
